theory Spec2Isabelle
  imports Main
begin

section \<open>The host API as the extension sees it\<close>

text \<open>
  The program is \<^verbatim>\<open>src/features/editing/editorManager.ts\<close>: an \<^verbatim>\<open>EditorManager\<close>
  (a custom text editor provider) and the \<^verbatim>\<open>Editor\<close> objects it creates, each bound
  to one webview panel. Everything the code reads from the host (\<^verbatim>\<open>vscode\<close>,
  \<^verbatim>\<open>process\<close>, \<^verbatim>\<open>Date.now()\<close>) is an input of the model; everything it does to
  the host (assigning \<^verbatim>\<open>webview.html\<close>, \<^verbatim>\<open>postMessage\<close>, \<^verbatim>\<open>executeCommand\<close>,
  \<^verbatim>\<open>dispose\<close>) is recorded in the state.
\<close>

text \<open>A \<^verbatim>\<open>vscode.Uri\<close> with its five components; \<^verbatim>\<open>uri.with({query: q})\<close> is the
  record update \<open>u\<lparr>query := q\<rparr>\<close>.\<close>

record Uri =
  scheme :: string
  authority :: string
  path :: string
  query :: string
  fragment :: string

text \<open>The reason a promise of the host is rejected with, and the one field of
  \<^verbatim>\<open>vscode.FileStat\<close> the code reads.\<close>

datatype error = FileSystemError

record FileStat =
  stat_size :: nat

text \<open>
  The host functions the code calls and does not define, as they answer at the moment of
  a call: \<^verbatim>\<open>Uri.toString()\<close>, \<^verbatim>\<open>Uri.toString(true)\<close>, \<^verbatim>\<open>Uri.fsPath\<close>, the outcome
  of \<^verbatim>\<open>vscode.workspace.fs.stat\<close> (\<open>Inl\<close>: the promise is rejected) and
  \<^verbatim>\<open>process.platform\<close>.
\<close>

record Host =
  uri_toString :: "Uri \<Rightarrow> string"
  uri_toString_skipEncoding :: "Uri \<Rightarrow> string"
  uri_fsPath :: "Uri \<Rightarrow> string"
  fs_stat :: "Uri \<Rightarrow> error + FileStat"
  process_platform :: string

text \<open>The one message shape posted to the webview: \<^verbatim>\<open>{ type: 'setActive', value }\<close>.\<close>

datatype Message = SetActive bool

text \<open>
  A \<^verbatim>\<open>vscode.WebviewPanel\<close> together with its \<^verbatim>\<open>webview\<close>. \<open>active\<close> is set by the
  host; \<open>asWebviewUri\<close> and \<open>cspSource\<close> are the webview's own; \<open>html_assigned\<close> lists
  the values assigned to \<^verbatim>\<open>webview.html\<close> (the latest last: every assignment reloads the
  webview), \<open>posted\<close> the messages given to \<^verbatim>\<open>webview.postMessage\<close>, and
  \<open>dispose_called\<close> says that the code called \<^verbatim>\<open>webviewEditor.dispose()\<close>.
\<close>

record WebviewPanel =
  active :: bool
  asWebviewUri :: "Uri \<Rightarrow> Uri"
  cspSource :: string
  enableScripts :: bool
  localResourceRoots :: "Uri list"
  html_assigned :: "string list"
  posted :: "Message list"
  dispose_called :: bool

section \<open>Strings\<close>

text \<open>\<^verbatim>\<open>Date.now().toString()\<close>: the decimal digits of an integer number of
  milliseconds (a sign first when it is negative). JavaScript prints integers below
  \<open>10\<^sup>2\<^sup>1\<close> this way, and no date reaches that.\<close>

definition digit_char :: "nat \<Rightarrow> char" where
  "digit_char n = char_of (48 + n)"

function decimal :: "nat \<Rightarrow> string" where
  "decimal n = (if n < 10 then [digit_char n] else decimal (n div 10) @ [digit_char (n mod 10)])"
  by pat_completeness auto
termination
  by (relation "measure (\<lambda>n. n)") auto

declare decimal.simps [simp del]

definition Number_toString :: "int \<Rightarrow> string" where
  "Number_toString i = (if i < 0 then CHR ''-'' # decimal (nat (- i)) else decimal (nat i))"

text \<open>The regular expression class \<^verbatim>\<open>\w\<close>: an ASCII letter, a digit or the underscore.\<close>

definition is_word_char :: "char \<Rightarrow> bool" where
  "is_word_char c =
     (let n = (of_char c :: nat)
      in (48 \<le> n \<and> n \<le> 57) \<or> (65 \<le> n \<and> n \<le> 90) \<or> n = 95 \<or> (97 \<le> n \<and> n \<le> 122))"

text \<open>
  \<^verbatim>\<open>path.replace(/\/[^\/]+?\.\w+$/, '/')\<close>, read off the expression from left to right.
  \<open>match_extension s\<close>: \<open>s\<close> is \<^verbatim>\<open>\.\w+$\<close>, a dot and then word characters up to the
  end. \<open>match_name s\<close>: \<open>s\<close> is \<^verbatim>\<open>[^\/]+?\.\w+$\<close>, one or more characters other than
  a slash and then an extension. \<open>replace_file_name\<close> replaces the first match (which
  runs to the end of the string) by a slash, and leaves a string with no match as it is.
\<close>

fun match_extension :: "string \<Rightarrow> bool" where
  "match_extension [] = False"
| "match_extension (c # s) = (c = CHR ''.'' \<and> s \<noteq> [] \<and> list_all is_word_char s)"

fun match_name :: "string \<Rightarrow> bool" where
  "match_name [] = False"
| "match_name (c # s) = (c \<noteq> CHR ''/'' \<and> (match_extension s \<or> match_name s))"

fun replace_file_name :: "string \<Rightarrow> string" where
  "replace_file_name [] = []"
| "replace_file_name (c # s) =
     (if c = CHR ''/'' \<and> match_name s then ''/'' else c # replace_file_name s)"

text \<open>
  \<^verbatim>\<open>JSON.stringify\<close> of a string: the quote and the backslash are escaped, a control
  character gets its short escape or \<^verbatim>\<open>\u00XX\<close>, every other character stands for
  itself. (Characters are bytes here; the lone surrogates that JavaScript also escapes
  have no counterpart.)
\<close>

definition hex_digit :: "nat \<Rightarrow> char" where
  "hex_digit n = (if n < 10 then char_of (48 + n) else char_of (87 + n))"

definition JSON_quote_char :: "char \<Rightarrow> string" where
  "JSON_quote_char c =
     (let n = (of_char c :: nat) in
      if n = 34 then [CHR 0x5C, CHR 0x22]
      else if n = 92 then [CHR 0x5C, CHR 0x5C]
      else if n = 8 then [CHR 0x5C, CHR ''b'']
      else if n = 12 then [CHR 0x5C, CHR ''f'']
      else if n = 10 then [CHR 0x5C, CHR ''n'']
      else if n = 13 then [CHR 0x5C, CHR ''r'']
      else if n = 9 then [CHR 0x5C, CHR ''t'']
      else if n < 32 then [CHR 0x5C, CHR ''u'', CHR ''0'', CHR ''0'', hex_digit (n div 16), hex_digit (n mod 16)]
      else [c])"

definition JSON_stringify_string :: "string \<Rightarrow> string" where
  "JSON_stringify_string s = [CHR 0x22] @ concat (map JSON_quote_char s) @ [CHR 0x22]"

text \<open>\<^verbatim>\<open>JSON.stringify(settings)\<close> for \<^verbatim>\<open>settings = { isMac, src }\<close>.\<close>

definition JSON_stringify_settings :: \<open>bool \<Rightarrow> string \<Rightarrow> string\<close> where
  \<open>JSON_stringify_settings isMac src =
     ''{"isMac":'' @ (if isMac then ''true'' else ''false'') @ '',"src":''
       @ JSON_stringify_string src @ ''}''\<close>

text \<open>\<^verbatim>\<open>escapeAttribute\<close>: every double quote becomes \<^verbatim>\<open>&quot;\<close>.\<close>

definition escapeAttribute :: "string \<Rightarrow> string" where
  "escapeAttribute v = concat (map (\<lambda>c. if c = CHR 0x22 then ''&quot;'' else [c]) v)"

section \<open>The disposal-tracking base class\<close>

text \<open>
  What \<^verbatim>\<open>this._register(...)\<close> is given in the constructor of \<^verbatim>\<open>Editor\<close>: the two
  panel listeners, the filesystem watcher (with the path it watches) and the watcher's
  two listeners.
\<close>

datatype Registration =
    ViewStateListener
  | DisposeListener
  | FileSystemWatcher string
  | WatcherChangeListener
  | WatcherDeleteListener

text \<open>
  Modelled from the spec: the class \<^verbatim>\<open>Disposable\<close> of \<^verbatim>\<open>../../dispose\<close>, which is not
  among the sources. The spec calls it "a shared disposal-tracking helper that each
  registered listener/watcher is attached to", "a base class collecting cleanup actions",
  through which the resources are "released en masse". So \<open>register\<close>
  (\<^verbatim>\<open>_register\<close>) attaches a resource and returns it to the caller, and \<open>dispose\<close>
  releases everything attached. \<open>disposables\<close> are the resources attached and not
  released, \<open>released\<close> those released so far.
\<close>

record Disposable =
  disposables :: "Registration list"
  released :: "Registration list"

definition register :: "Registration \<Rightarrow> 'a Disposable_scheme \<Rightarrow> 'a Disposable_scheme" where
  "register r d = d\<lparr>disposables := disposables d @ [r]\<rparr>"

definition dispose :: "'a Disposable_scheme \<Rightarrow> 'a Disposable_scheme" where
  "dispose d = d\<lparr>disposables := [], released := released d @ disposables d\<rparr>"

section \<open>Editor\<close>

text \<open>\<^verbatim>\<open>const enum PreviewState\<close>.\<close>

datatype PreviewState = Disposed | Visible | Active

text \<open>The methods whose invocations are counted: \<open>calls\<close> below is a history of the
  calls of \<^verbatim>\<open>render()\<close> and \<^verbatim>\<open>update()\<close> on an editor. The code never reads it.\<close>

datatype Call = CallRender | CallUpdate

text \<open>
  \<^verbatim>\<open>class Editor extends Disposable\<close>. Beside the fields of the class
  (\<open>extensionRoot\<close>, \<open>resource\<close>, \<open>webviewEditor\<close>, \<open>editorState\<close> for
  \<^verbatim>\<open>_editorState\<close>), the record holds what is in flight: \<open>statProbePending\<close> while the
  promise of the constructor's \<^verbatim>\<open>stat\<close> is not settled, and in \<open>pendingRenders\<close> one
  entry for each call of \<^verbatim>\<open>render()\<close> that waits at the \<^verbatim>\<open>await\<close> of
  \<^verbatim>\<open>getWebiewContents\<close>: the \<^verbatim>\<open>version\<close> it computed before waiting.
\<close>

record Editor = Disposable +
  extensionRoot :: Uri
  resource :: Uri
  webviewEditor :: WebviewPanel
  editorState :: PreviewState
  statProbePending :: bool
  pendingRenders :: "string list"
  calls :: "Call list"

text \<open>\<^verbatim>\<open>emptyPngDataUri\<close>.\<close>

definition emptyPngDataUri :: string where
  "emptyPngDataUri = ''data:image/png;base64,iVBORw0KGgoAAAANSUhEUgAAAAEAAAABCAYAAAAfFcSJAAAAEElEQVR42gEFAPr/AP///wAI/AL+Sr4t6gAAAABJRU5ErkJggg==''"

text \<open>
  \<^verbatim>\<open>getResourcePath\<close>. The function is \<^verbatim>\<open>async\<close>: \<open>Inl\<close> is a rejected promise
  (the awaited \<^verbatim>\<open>stat\<close> was rejected), \<open>Inr\<close> the string it resolves to.
  \<^verbatim>\<open>if (resource.query)\<close> tests that the string is not empty.
\<close>

definition getResourcePath :: "Host \<Rightarrow> WebviewPanel \<Rightarrow> Uri \<Rightarrow> string \<Rightarrow> error + string" where
  "getResourcePath h webviewEditor' resource' version =
     (let rest =
        (if query resource' \<noteq> []
         then Inr (uri_toString_skipEncoding h (asWebviewUri webviewEditor' resource'))
         else Inr (uri_toString_skipEncoding h
                     ((asWebviewUri webviewEditor' resource')\<lparr>query := ''version='' @ version\<rparr>)))
      in if scheme resource' = ''git''
         then (case fs_stat h resource' of
                 Inl e \<Rightarrow> Inl e
               | Inr stat \<Rightarrow> if stat_size stat = 0 then Inr emptyPngDataUri else rest)
         else rest)"

text \<open>
  The template literal of \<^verbatim>\<open>getWebiewContents\<close>, with its three holes: the webview's
  \<^verbatim>\<open>cspSource\<close>, the nonce (twice) and the escaped settings.
\<close>

definition html_template :: \<open>string \<Rightarrow> string \<Rightarrow> string \<Rightarrow> string\<close> where
  \<open>html_template csp nonce settings =
     ''<!DOCTYPE html>\<newline><html lang="en">\<newline><head>\<newline>''
     @ [CHR 0x09] @ ''<meta charset="UTF-8">\<newline>\<newline>''
     @ [CHR 0x09] @ ''<!-- Disable pinch zooming -->\<newline>''
     @ [CHR 0x09] @ ''<meta name="viewport"\<newline>''
     @ [CHR 0x09, CHR 0x09]
     @ ''content="width=device-width, initial-scale=1.0, maximum-scale=1.0, minimum-scale=1.0, user-scalable=no">\<newline>\<newline>''
     @ [CHR 0x09] @ ''<title>foo</title\<newline>\<newline>''
     @ [CHR 0x09] @ ''<meta http-equiv="Content-Security-Policy" content="default-src ''
     @ [CHR 0x27] @ ''none'' @ [CHR 0x27] @ ''; img-src '' @ [CHR 0x27] @ ''self'' @ [CHR 0x27]
     @ '' data: '' @ csp @ ''; script-src '' @ [CHR 0x27] @ ''nonce-'' @ nonce @ [CHR 0x27]
     @ ''; style-src '' @ [CHR 0x27] @ ''self'' @ [CHR 0x27] @ '' '' @ [CHR 0x27] @ ''nonce-''
     @ nonce @ [CHR 0x27] @ '';">\<newline>''
     @ [CHR 0x09] @ ''<meta id="image-preview-settings" data-settings="'' @ settings @ ''">\<newline>''
     @ ''</head>\<newline><body>\<newline>'' @ [CHR 0x09] @ ''Hello world\<newline></body>\<newline></html>''\<close>

text \<open>
  \<^verbatim>\<open>getWebiewContents\<close>, from its two readings of the clock: \<open>version\<close> is
  \<^verbatim>\<open>Date.now().toString()\<close> read before the \<^verbatim>\<open>await\<close>, \<open>nonce\<close> the one read after
  it. A rejected \<^verbatim>\<open>getResourcePath\<close> rejects the whole.
\<close>

definition getWebiewContents :: "Host \<Rightarrow> string \<Rightarrow> string \<Rightarrow> Editor \<Rightarrow> error + string" where
  "getWebiewContents h version nonce ed =
     (case getResourcePath h (webviewEditor ed) (resource ed) version of
        Inl e \<Rightarrow> Inl e
      | Inr src \<Rightarrow>
          Inr (html_template (cspSource (webviewEditor ed)) nonce
                 (escapeAttribute (JSON_stringify_settings (process_platform h = ''darwin'') src))))"

text \<open>
  \<^verbatim>\<open>render()\<close> up to its \<^verbatim>\<open>await\<close>: the guard on the state is evaluated at the call,
  and \<^verbatim>\<open>getWebiewContents\<close> reads the clock (\<open>now\<close>) for the version before it waits
  for the resource path.
\<close>

definition render :: "int \<Rightarrow> Editor \<Rightarrow> Editor" where
  "render now ed =
     (let ed1 = ed\<lparr>calls := calls ed @ [CallRender]\<rparr>
      in if editorState ed1 \<noteq> Disposed
         then ed1\<lparr>pendingRenders := pendingRenders ed1 @ [Number_toString now]\<rparr>
         else ed1)"

text \<open>
  The rest of \<^verbatim>\<open>render()\<close>, when the promise it waits for is settled: the \<open>k\<close>-th
  pending call resumes, reads the clock (\<open>now\<close>) for the nonce and assigns
  \<^verbatim>\<open>webview.html\<close>; when the promise is rejected nothing is assigned. The state is not
  tested again.
\<close>

definition render_resume :: "Host \<Rightarrow> nat \<Rightarrow> int \<Rightarrow> Editor \<Rightarrow> Editor" where
  "render_resume h k now ed =
     (if k < length (pendingRenders ed)
      then (let version = pendingRenders ed ! k;
                ed1 = ed\<lparr>pendingRenders := take k (pendingRenders ed) @ drop (Suc k) (pendingRenders ed)\<rparr>
            in case getWebiewContents h version (Number_toString now) ed1 of
                 Inl e \<Rightarrow> ed1
               | Inr contents \<Rightarrow>
                   ed1\<lparr>webviewEditor :=
                     (webviewEditor ed1)\<lparr>html_assigned := html_assigned (webviewEditor ed1) @ [contents]\<rparr>\<rparr>)
      else ed)"

text \<open>\<^verbatim>\<open>update()\<close>. The empty \<^verbatim>\<open>if (this._editorState === PreviewState.Active) { }\<close> of
  the source does nothing.\<close>

definition update :: "Editor \<Rightarrow> Editor" where
  "update ed =
     (let ed1 = ed\<lparr>calls := calls ed @ [CallUpdate]\<rparr>
      in if editorState ed1 = Disposed then ed1
         else if active (webviewEditor ed1) then ed1\<lparr>editorState := Active\<rparr>
         else ed1\<lparr>editorState := Visible\<rparr>)"

text \<open>\<^verbatim>\<open>this.webviewEditor.webview.postMessage({ type: 'setActive', value: this.webviewEditor.active })\<close>.\<close>

definition postSetActive :: "Editor \<Rightarrow> Editor" where
  "postSetActive ed =
     ed\<lparr>webviewEditor :=
       (webviewEditor ed)\<lparr>posted := posted (webviewEditor ed) @ [SetActive (active (webviewEditor ed))]\<rparr>\<rparr>"

text \<open>
  The constructor, in the order of the source: the resource root and the webview
  options, the five registrations, the \<^verbatim>\<open>stat\<close> probe (started, not yet settled), then
  \<^verbatim>\<open>render()\<close>, \<^verbatim>\<open>update()\<close> and the first message.
\<close>

definition new_Editor :: "Host \<Rightarrow> int \<Rightarrow> Uri \<Rightarrow> Uri \<Rightarrow> WebviewPanel \<Rightarrow> Editor" where
  "new_Editor h now extensionRoot' resource' webviewEditor' =
     (let resourceRoot = resource'\<lparr>path := replace_file_name (path resource')\<rparr>;
          panel = webviewEditor'\<lparr>enableScripts := True,
                                  localResourceRoots := [resourceRoot, extensionRoot']\<rparr>;
          ed0 = \<lparr>disposables = [], released = [],
                 extensionRoot = extensionRoot', resource = resource', webviewEditor = panel,
                 editorState = Visible, statProbePending = False, pendingRenders = [],
                 calls = []\<rparr>;
          ed1 = register ViewStateListener ed0;
          ed2 = register DisposeListener ed1;
          ed3 = register (FileSystemWatcher (uri_fsPath h resource')) ed2;
          ed4 = register WatcherChangeListener ed3;
          ed5 = register WatcherDeleteListener ed4;
          ed6 = ed5\<lparr>statProbePending := True\<rparr>;
          ed7 = render now ed6;
          ed8 = update ed7
      in postSetActive ed8)"

subsection \<open>The listeners the constructor registers\<close>

text \<open>\<^verbatim>\<open>webviewEditor.onDidChangeViewState\<close>: \<^verbatim>\<open>update()\<close>, then the message, whatever
  the state.\<close>

definition editor_onDidChangeViewState :: "Editor \<Rightarrow> Editor" where
  "editor_onDidChangeViewState ed = postSetActive (update ed)"

text \<open>\<^verbatim>\<open>webviewEditor.onDidDispose\<close>: the state becomes \<open>Disposed\<close>, and that is all.\<close>

definition editor_onDidDispose :: "Editor \<Rightarrow> Editor" where
  "editor_onDidDispose ed = ed\<lparr>editorState := Disposed\<rparr>"

text \<open>\<^verbatim>\<open>watcher.onDidChange\<close> and \<^verbatim>\<open>watcher.onDidDelete\<close>: both compare
  \<^verbatim>\<open>e.toString()\<close> with \<^verbatim>\<open>this.resource.toString()\<close>.\<close>

definition watcher_onDidChange :: "Host \<Rightarrow> int \<Rightarrow> Uri \<Rightarrow> Editor \<Rightarrow> Editor" where
  "watcher_onDidChange h now e ed =
     (if uri_toString h e = uri_toString h (resource ed) then render now ed else ed)"

definition watcher_onDidDelete :: "Host \<Rightarrow> Uri \<Rightarrow> Editor \<Rightarrow> Editor" where
  "watcher_onDidDelete h e ed =
     (if uri_toString h e = uri_toString h (resource ed)
      then ed\<lparr>webviewEditor := (webviewEditor ed)\<lparr>dispose_called := True\<rparr>\<rparr>
      else ed)"

text \<open>
  \<^verbatim>\<open>vscode.workspace.fs.stat(resource).then(() => { this.update(); })\<close>, when the promise
  of \<^verbatim>\<open>stat\<close> is settled: \<^verbatim>\<open>then\<close> is given one callback, which runs when the promise
  is fulfilled. When it is rejected no callback runs; the promise that \<^verbatim>\<open>then\<close> returned
  is rejected in its turn and nothing holds it.
\<close>

definition statProbe_settled :: "error + FileStat \<Rightarrow> Editor \<Rightarrow> Editor" where
  "statProbe_settled outcome ed =
     (if statProbePending ed
      then (let ed1 = ed\<lparr>statProbePending := False\<rparr>
            in case outcome of Inl e \<Rightarrow> ed1 | Inr stat \<Rightarrow> update ed1)
      else ed)"

subsection \<open>What the host delivers to one editor\<close>

text \<open>
  \<open>DidChangeViewState b\<close>: the panel's \<^verbatim>\<open>active\<close> is now \<open>b\<close> and its view-state
  listeners are called. \<open>DidDispose\<close>: the panel's disposal listeners are called.
  \<open>WatcherDidChange e now\<close> and \<open>WatcherDidDelete e\<close>: the watcher reports \<open>e\<close>.
  \<open>StatProbeSettled\<close>: the constructor's \<^verbatim>\<open>stat\<close> is settled, with the outcome the host
  gives for the resource. \<open>RenderResumed k now\<close>: the \<open>k\<close>-th waiting \<^verbatim>\<open>render()\<close>
  goes on. \<open>now\<close> is the reading of \<^verbatim>\<open>Date.now()\<close> in the handler.
\<close>

datatype EditorEvent =
    DidChangeViewState bool
  | DidDispose
  | WatcherDidChange Uri int
  | WatcherDidDelete Uri
  | StatProbeSettled
  | RenderResumed nat int

fun editor_step :: "Host \<Rightarrow> EditorEvent \<Rightarrow> Editor \<Rightarrow> Editor" where
  "editor_step h (DidChangeViewState b) ed =
     editor_onDidChangeViewState (ed\<lparr>webviewEditor := (webviewEditor ed)\<lparr>active := b\<rparr>\<rparr>)"
| "editor_step h DidDispose ed = editor_onDidDispose ed"
| "editor_step h (WatcherDidChange e now) ed = watcher_onDidChange h now e ed"
| "editor_step h (WatcherDidDelete e) ed = watcher_onDidDelete h e ed"
| "editor_step h StatProbeSettled ed = statProbe_settled (fs_stat h (resource ed)) ed"
| "editor_step h (RenderResumed k now) ed = render_resume h k now ed"

text \<open>A run: the events in the order of delivery, each with the host as it answers then.\<close>

fun editor_run :: "(Host \<times> EditorEvent) list \<Rightarrow> Editor \<Rightarrow> Editor" where
  "editor_run [] ed = ed"
| "editor_run ((h, ev) # evs) ed = editor_run evs (editor_step h ev ed)"

section \<open>EditorManager\<close>

text \<open>
  \<^verbatim>\<open>class EditorManager\<close>: \<open>editors\<close> is \<^verbatim>\<open>_editors\<close>, a \<^verbatim>\<open>Set<Editor>\<close>, and
  \<open>activeEditor\<close> is \<^verbatim>\<open>_activeEditor\<close> (\<open>None\<close> for \<^verbatim>\<open>undefined\<close>). A JavaScript set
  of objects holds references, so an editor is named by its reference: the position of
  the object in \<open>objects\<close> below.
\<close>

record EditorManager =
  manager_extensionRoot :: Uri
  editors :: "nat set"
  activeEditor :: "nat option"

text \<open>
  The manager, the \<^verbatim>\<open>Editor\<close> objects created so far (never removed: an object
  lives as long as something refers to it), and the calls of
  \<^verbatim>\<open>vscode.commands.executeCommand(command, key, value)\<close> made so far.
\<close>

record World =
  manager :: EditorManager
  objects :: "Editor list"
  executed :: "(string \<times> string \<times> bool) list"

definition new_EditorManager :: "Uri \<Rightarrow> World" where
  "new_EditorManager extensionRoot' =
     \<lparr>manager = \<lparr>manager_extensionRoot = extensionRoot', editors = {}, activeEditor = None\<rparr>,
      objects = [], executed = []\<rparr>"

definition setPreviewActiveContext :: "bool \<Rightarrow> World \<Rightarrow> World" where
  "setPreviewActiveContext v w =
     w\<lparr>executed := executed w @ [(''setContext'', ''bpmnEditorFocus'', v)]\<rparr>"

text \<open>\<^verbatim>\<open>setActiveEditor\<close>; \<^verbatim>\<open>!!value\<close> is true for an editor and false for
  \<^verbatim>\<open>undefined\<close>.\<close>

definition setActiveEditor :: "nat option \<Rightarrow> World \<Rightarrow> World" where
  "setActiveEditor v w =
     setPreviewActiveContext (v \<noteq> None) (w\<lparr>manager := (manager w)\<lparr>activeEditor := v\<rparr>\<rparr>)"

text \<open>
  \<^verbatim>\<open>resolveCustomTextEditor\<close>: the new editor is allocated, added to the set and made
  the active one. The two listeners it registers on the panel are
  \<open>manager_onDidDispose\<close> and \<open>manager_onDidChangeViewState\<close>, called by \<open>step\<close>
  below for every editor made here.
\<close>

definition resolveCustomTextEditor :: "Host \<Rightarrow> int \<Rightarrow> Uri \<Rightarrow> WebviewPanel \<Rightarrow> World \<Rightarrow> World" where
  "resolveCustomTextEditor h now document_uri webviewEditor' w =
     (let editor = new_Editor h now (manager_extensionRoot (manager w)) document_uri webviewEditor';
          ref = length (objects w);
          w1 = w\<lparr>objects := objects w @ [editor]\<rparr>;
          w2 = w1\<lparr>manager := (manager w1)\<lparr>editors := insert ref (editors (manager w1))\<rparr>\<rparr>
      in setActiveEditor (Some ref) w2)"

text \<open>\<^verbatim>\<open>webviewEditor.onDidDispose(() => { this._editors.delete(editor); })\<close>.\<close>

definition manager_onDidDispose :: "nat \<Rightarrow> World \<Rightarrow> World" where
  "manager_onDidDispose editor w =
     w\<lparr>manager := (manager w)\<lparr>editors := editors (manager w) - {editor}\<rparr>\<rparr>"

text \<open>The listener on \<^verbatim>\<open>webviewEditor.onDidChangeViewState\<close>; the panel is the one the
  editor holds.\<close>

definition manager_onDidChangeViewState :: "nat \<Rightarrow> World \<Rightarrow> World" where
  "manager_onDidChangeViewState editor w =
     (if active (webviewEditor (objects w ! editor))
      then setActiveEditor (Some editor) w
      else if activeEditor (manager w) = Some editor \<and> \<not> active (webviewEditor (objects w ! editor))
      then setActiveEditor None w
      else w)"

text \<open>
  What the host does: it asks the provider to resolve an editor for a document and a
  fresh panel, or it delivers an event of the panel or the watcher of an editor made
  earlier. The listeners of a panel run in the order of their registration: the
  editor's own (registered in its constructor) before the manager's. An event for a
  reference that names no editor has no listener.
\<close>

datatype Event =
    Resolve Uri WebviewPanel int
  | Deliver nat EditorEvent

fun manager_listeners :: "nat \<Rightarrow> EditorEvent \<Rightarrow> World \<Rightarrow> World" where
  "manager_listeners editor (DidChangeViewState b) w = manager_onDidChangeViewState editor w"
| "manager_listeners editor DidDispose w = manager_onDidDispose editor w"
| "manager_listeners editor (WatcherDidChange e now) w = w"
| "manager_listeners editor (WatcherDidDelete e) w = w"
| "manager_listeners editor StatProbeSettled w = w"
| "manager_listeners editor (RenderResumed k now) w = w"

fun step :: "Host \<Rightarrow> Event \<Rightarrow> World \<Rightarrow> World" where
  "step h (Resolve document_uri panel now) w = resolveCustomTextEditor h now document_uri panel w"
| "step h (Deliver editor ev) w =
     (if editor < length (objects w)
      then manager_listeners editor ev
             (w\<lparr>objects := (objects w)[editor := editor_step h ev (objects w ! editor)]\<rparr>)
      else w)"

fun run :: "(Host \<times> Event) list \<Rightarrow> World \<Rightarrow> World" where
  "run [] w = w"
| "run ((h, ev) # evs) w = run evs (step h ev w)"

section \<open>Notions the properties are stated with\<close>

text \<open>
  The panel's last reported focus value: the value of the last view-state notification
  of a sequence of events, and the value \<open>a\<close> the panel had before when there is none.
\<close>

fun last_focus :: "bool \<Rightarrow> EditorEvent list \<Rightarrow> bool" where
  "last_focus a [] = a"
| "last_focus a (DidChangeViewState b # evs) = last_focus b evs"
| "last_focus a (ev # evs) = last_focus a evs"

text \<open>The state agrees with the panel's focus: \<open>Active\<close> when it has it, \<open>Visible\<close>
  when not.\<close>

definition in_sync :: "Editor \<Rightarrow> bool" where
  "in_sync ed = (editorState ed = (if active (webviewEditor ed) then Active else Visible))"

text \<open>Reading a decimal numeral back, to show that printing loses nothing.\<close>

definition digit_value :: "char \<Rightarrow> nat" where
  "digit_value c = of_char c - 48"

definition decimal_value :: "string \<Rightarrow> nat" where
  "decimal_value s = foldl (\<lambda>a c. 10 * a + digit_value c) 0 s"

text \<open>The five registrations of the constructor, for a watched path \<open>p\<close>.\<close>

definition registrations :: "string \<Rightarrow> Registration list" where
  "registrations p =
     [ViewStateListener, DisposeListener, FileSystemWatcher p,
      WatcherChangeListener, WatcherDeleteListener]"

section \<open>Concrete inputs\<close>

text \<open>
  A host, a panel and two resources to evaluate the definitions on. The host prints a
  URI as scheme, authority, path and, when they are not empty, query and fragment.
\<close>

definition print_uri :: "Uri \<Rightarrow> string" where
  "print_uri u =
     scheme u @ ''://'' @ authority u @ path u
       @ (if query u = [] then [] else ''?'' @ query u)
       @ (if fragment u = [] then [] else ''#'' @ fragment u)"

definition file_uri :: "string \<Rightarrow> Uri" where
  "file_uri p = \<lparr>scheme = ''file'', authority = [], path = p, query = [], fragment = []\<rparr>"

definition git_uri :: "string \<Rightarrow> string \<Rightarrow> Uri" where
  "git_uri p q = \<lparr>scheme = ''git'', authority = [], path = p, query = q, fragment = []\<rparr>"

definition host0 :: Host where
  "host0 =
     \<lparr>uri_toString = print_uri, uri_toString_skipEncoding = print_uri, uri_fsPath = path,
      fs_stat = (\<lambda>u. if path u = ''/gone.bpmn'' then Inl FileSystemError
                       else if path u = ''/empty.bpmn'' then Inr \<lparr>stat_size = 0\<rparr>
                       else Inr \<lparr>stat_size = 120\<rparr>),
      process_platform = ''linux''\<rparr>"

definition panel0 :: "bool \<Rightarrow> WebviewPanel" where
  "panel0 a =
     \<lparr>active = a,
      asWebviewUri = (\<lambda>u. u\<lparr>scheme := ''vscode-resource'', authority := scheme u\<rparr>),
      cspSource = ''vscode-resource:'', enableScripts = False, localResourceRoots = [],
      html_assigned = [], posted = [], dispose_called = False\<rparr>"

text \<open>An editor as its constructor leaves it, and a manager that has resolved one
  editor.\<close>

definition editor0 :: Editor where
  "editor0 = new_Editor host0 5 (file_uri ''/ext'') (file_uri ''/a/x.bpmn'') (panel0 True)"

definition world1 :: World where
  "world1 = run [(host0, Resolve (file_uri ''/a/x.bpmn'') (panel0 True) 5)]
              (new_EditorManager (file_uri ''/ext''))"

section \<open>Auxiliary facts\<close>

subsection \<open>Printing numbers\<close>

lemma digit_value_digit_char: "n < 10 \<Longrightarrow> digit_value (digit_char n) = n"
  by (simp add: digit_value_def digit_char_def)

lemma decimal_value_decimal: "decimal_value (decimal n) = n"
proof (induction n rule: decimal.induct)
  case (1 n)
  show ?case
  proof (cases "n < 10")
    case True
    then show ?thesis
      by (simp add: decimal.simps [of n] decimal_value_def digit_value_digit_char)
  next
    case False
    with 1 have "decimal_value (decimal (n div 10)) = n div 10" by simp
    with False show ?thesis
      by (simp add: decimal.simps [of n] decimal_value_def digit_value_digit_char)
  qed
qed

lemma decimal_inj: "decimal m = decimal n \<Longrightarrow> m = n"
  by (metis decimal_value_decimal)

lemma decimal_digits: "c \<in> set (decimal n) \<Longrightarrow> 48 \<le> (of_char c :: nat)"
proof (induction n rule: decimal.induct)
  case (1 n)
  show ?case
  proof (cases "n < 10")
    case True
    with 1(2) show ?thesis
      by (simp add: decimal.simps [of n] digit_char_def)
  next
    case False
    with 1 show ?thesis
      by (auto simp add: decimal.simps [of n] digit_char_def)
  qed
qed

lemma minus_not_in_decimal: "CHR ''-'' \<notin> set (decimal n)"
  using decimal_digits [of "CHR ''-''" n] by auto

lemma Number_toString_inj: "Number_toString i = Number_toString j \<Longrightarrow> i = j"
proof -
  assume eq: "Number_toString i = Number_toString j"
  have neg: "CHR ''-'' # decimal a \<noteq> decimal b" for a b
    using minus_not_in_decimal [of b] by (metis list.set_intros(1))
  show ?thesis
  proof (cases "i < 0")
    case True
    note i = this
    show ?thesis
    proof (cases "j < 0")
      case True
      with i eq have "nat (- i) = nat (- j)"
        by (auto simp add: Number_toString_def dest: decimal_inj)
      with i True show ?thesis by simp
    next
      case False
      with i eq neg show ?thesis by (simp add: Number_toString_def)
    qed
  next
    case False
    note i = this
    show ?thesis
    proof (cases "j < 0")
      case True
      with i eq neg [of "nat (- j)" "nat i"] show ?thesis by (simp add: Number_toString_def)
    next
      case False
      with i eq have "nat i = nat j"
        by (auto simp add: Number_toString_def dest: decimal_inj)
      with i False show ?thesis by simp
    qed
  qed
qed

lemmas editor_defs = render_def render_resume_def update_def postSetActive_def
  editor_onDidChangeViewState_def editor_onDidDispose_def watcher_onDidChange_def
  watcher_onDidDelete_def statProbe_settled_def

lemma step_disposables: "disposables (editor_step h ev ed) = disposables ed"
  by (cases ev) (simp_all add: editor_defs Let_def split: sum.splits)

lemma step_released: "released (editor_step h ev ed) = released ed"
  by (cases ev) (simp_all add: editor_defs Let_def split: sum.splits)

lemma run_disposables: "disposables (editor_run evs ed) = disposables ed"
  by (induction evs ed rule: editor_run.induct) (simp_all add: step_disposables)

lemma run_released: "released (editor_run evs ed) = released ed"
  by (induction evs ed rule: editor_run.induct) (simp_all add: step_released)

lemma step_Disposed: "editorState ed = Disposed \<Longrightarrow> editorState (editor_step h ev ed) = Disposed"
  by (cases ev) (simp_all add: editor_defs Let_def split: sum.splits)

lemma run_Disposed: "editorState ed = Disposed \<Longrightarrow> editorState (editor_run evs ed) = Disposed"
  by (induction evs ed rule: editor_run.induct) (simp_all add: step_Disposed)

lemma step_in_sync:
  "in_sync ed \<Longrightarrow> ev \<noteq> DidDispose \<Longrightarrow> in_sync (editor_step h ev ed)"
  by (cases ev) (simp_all add: in_sync_def editor_defs Let_def split: sum.splits)

lemma step_active:
  "active (webviewEditor (editor_step h ev ed)) = last_focus (active (webviewEditor ed)) [ev]"
  by (cases ev) (simp_all add: editor_defs Let_def split: sum.splits)

lemma last_focus_Cons: "last_focus a (ev # evs) = last_focus (last_focus a [ev]) evs"
  by (cases ev) simp_all

lemma run_state:
  "in_sync ed \<Longrightarrow>
   editorState (editor_run evs ed) =
     (if DidDispose \<in> snd ` set evs then Disposed
      else if last_focus (active (webviewEditor ed)) (map snd evs) then Active else Visible)"
proof (induction evs ed rule: editor_run.induct)
  case (1 ed)
  then show ?case by (simp add: in_sync_def)
next
  case (2 h ev evs ed)
  show ?case
  proof (cases "ev = DidDispose")
    case True
    then show ?thesis by (simp add: run_Disposed editor_onDidDispose_def)
  next
    case False
    with 2 have sync: "in_sync (editor_step h ev ed)" by (simp add: step_in_sync)
    have lf: "last_focus (active (webviewEditor (editor_step h ev ed))) (map snd evs) =
        last_focus (active (webviewEditor ed)) (ev # map snd evs)"
      using last_focus_Cons [of "active (webviewEditor ed)" ev "map snd evs"]
      by (simp only: step_active)
    from "2.IH" [OF sync] False lf show ?thesis by simp
  qed
qed

lemma new_Editor_in_sync: "in_sync (new_Editor h now root res panel)"
  by (simp add: new_Editor_def in_sync_def editor_defs register_def Let_def)

subsection \<open>The manager and the contents\<close>

lemmas manager_defs = new_EditorManager_def setPreviewActiveContext_def setActiveEditor_def
  resolveCustomTextEditor_def manager_onDidDispose_def manager_onDidChangeViewState_def

lemma getWebiewContents_cong:
  "webviewEditor ed' = webviewEditor ed \<Longrightarrow> resource ed' = resource ed \<Longrightarrow>
   getWebiewContents h version nonce ed' = getWebiewContents h version nonce ed"
  by (simp add: getWebiewContents_def split: sum.splits)

lemma editor0_fields:
  "resource editor0 = file_uri ''/a/x.bpmn''"
  "editorState editor0 = Active"
  "pendingRenders editor0 = [Number_toString 5]"
  "calls editor0 = [CallRender, CallUpdate]"
  "html_assigned (webviewEditor editor0) = []"
  "cspSource (webviewEditor editor0) = ''vscode-resource:''"
  "asWebviewUri (webviewEditor editor0) = asWebviewUri (panel0 True)"
  by (simp_all add: editor0_def new_Editor_def editor_defs register_def Let_def panel0_def)

lemma editor0_contents:
  "getWebiewContents host0 (Number_toString 9) (Number_toString 10) editor0 =
     Inr (html_template ''vscode-resource:'' (Number_toString 10)
            (escapeAttribute (JSON_stringify_settings False
               (''vscode-resource://file/a/x.bpmn?version='' @ Number_toString 9))))"
  by (simp add: getWebiewContents_def getResourcePath_def editor0_fields Let_def)
     (simp add: file_uri_def host0_def panel0_def print_uri_def)

lemma Number_toString_5: "Number_toString 5 = ''5''"
  by code_simp

section \<open>The claims\<close>

subsection \<open>The manager's active editor\<close>

text \<open>
  C1. The active reference need not name a member of the set of live editors. After one
  editor is resolved and the disposal of its panel is delivered, \<^verbatim>\<open>_activeEditor\<close> still
  names that editor and \<^verbatim>\<open>_editors\<close> no longer holds it; the only broadcast of
  \<^verbatim>\<open>bpmnEditorFocus\<close> is the \<open>True\<close> of the opening. The disposal listener of the
  manager deletes from the set and leaves the reference, where the view-state listener
  clears it when the active editor loses the focus.
\<close>

theorem active_editor_outlives_disposal:
  "activeEditor (manager (run [(h, Resolve document_uri panel now), (h', Deliver 0 DidDispose)]
                            (new_EditorManager root))) = Some 0 \<and>
   0 \<notin> editors (manager (run [(h, Resolve document_uri panel now), (h', Deliver 0 DidDispose)]
                              (new_EditorManager root))) \<and>
   executed (run [(h, Resolve document_uri panel now), (h', Deliver 0 DidDispose)]
               (new_EditorManager root)) = [(''setContext'', ''bpmnEditorFocus'', True)]"
  by (simp add: manager_defs Let_def)

subsection \<open>The probe of the constructor\<close>

text \<open>
  C2, as the claim states it, fails: when the \<^verbatim>\<open>stat\<close> of the constructor is rejected,
  no call of \<^verbatim>\<open>update()\<close> follows. The editor of a resource whose \<^verbatim>\<open>stat\<close> fails
  has the calls of its constructor, \<^verbatim>\<open>render()\<close> and \<^verbatim>\<open>update()\<close>, before the probe is
  settled and the same two after.
\<close>

theorem stat_probe_rejected_counterexample:
  "fs_stat host0 (file_uri ''/gone.bpmn'') = Inl FileSystemError \<and>
   calls (new_Editor host0 5 (file_uri ''/ext'') (file_uri ''/gone.bpmn'') (panel0 True)) =
     [CallRender, CallUpdate] \<and>
   calls (editor_step host0 StatProbeSettled
            (new_Editor host0 5 (file_uri ''/ext'') (file_uri ''/gone.bpmn'') (panel0 True))) =
     [CallRender, CallUpdate] \<and>
   calls (editor_step host0 StatProbeSettled
            (new_Editor host0 5 (file_uri ''/ext'') (file_uri ''/gone.bpmn'') (panel0 True))) \<noteq>
     calls (new_Editor host0 5 (file_uri ''/ext'') (file_uri ''/gone.bpmn'') (panel0 True)) @ [CallUpdate]"
  by (simp add: new_Editor_def editor_defs register_def Let_def host0_def file_uri_def panel0_def)

text \<open>
  C2, amended. While the probe is pending: when it is fulfilled, \<^verbatim>\<open>update()\<close> is called
  once and nothing else happens; when it is rejected, nothing is called and the editor
  stays as it is (the probe is no longer pending).
\<close>

theorem stat_probe_then:
  assumes "statProbePending ed"
  shows "statProbe_settled (Inr stat) ed = update (ed\<lparr>statProbePending := False\<rparr>) \<and>
         calls (statProbe_settled (Inr stat) ed) = calls ed @ [CallUpdate] \<and>
         statProbe_settled (Inl e) ed = ed\<lparr>statProbePending := False\<rparr> \<and>
         calls (statProbe_settled (Inl e) ed) = calls ed"
  using assms by (simp add: statProbe_settled_def update_def Let_def)

theorem stat_probe_then_witness:
  "statProbePending (new_Editor host0 5 (file_uri ''/ext'') (file_uri ''/a/x.bpmn'') (panel0 True)) \<and>
   calls (statProbe_settled (Inr \<lparr>stat_size = 120\<rparr>)
            (new_Editor host0 5 (file_uri ''/ext'') (file_uri ''/a/x.bpmn'') (panel0 True))) =
     [CallRender, CallUpdate, CallUpdate] \<and>
   calls (statProbe_settled (Inl FileSystemError)
            (new_Editor host0 5 (file_uri ''/ext'') (file_uri ''/a/x.bpmn'') (panel0 True))) =
     [CallRender, CallUpdate]"
proof -
  have p: "statProbePending (new_Editor host0 5 (file_uri ''/ext'') (file_uri ''/a/x.bpmn'') (panel0 True))"
    by (simp add: new_Editor_def editor_defs register_def Let_def)
  have c: "calls (new_Editor host0 5 (file_uri ''/ext'') (file_uri ''/a/x.bpmn'') (panel0 True)) =
      [CallRender, CallUpdate]"
    by (simp add: new_Editor_def editor_defs register_def Let_def)
  from stat_probe_then [OF p, of "\<lparr>stat_size = 120\<rparr>" FileSystemError]
  have a: "calls (statProbe_settled (Inr \<lparr>stat_size = 120\<rparr>)
            (new_Editor host0 5 (file_uri ''/ext'') (file_uri ''/a/x.bpmn'') (panel0 True))) =
        calls (new_Editor host0 5 (file_uri ''/ext'') (file_uri ''/a/x.bpmn'') (panel0 True)) @ [CallUpdate]"
    and b: "calls (statProbe_settled (Inl FileSystemError)
            (new_Editor host0 5 (file_uri ''/ext'') (file_uri ''/a/x.bpmn'') (panel0 True))) =
        calls (new_Editor host0 5 (file_uri ''/ext'') (file_uri ''/a/x.bpmn'') (panel0 True))"
    by blast+
  from p a b show ?thesis
    by (simp only: c append.simps simp_thms)
qed

subsection \<open>Releasing the resources\<close>

text \<open>
  C3. No event releases what the constructor registered. Whatever events an editor is
  given after its construction, the disposal of its panel among them, the five
  registrations are still attached to it and none is released; \<open>dispose\<close> would
  release all five, and no listener calls it. The same holds for the editor the
  manager resolves, after the disposal of its panel has gone through the listeners of
  the editor and of the manager.
\<close>

theorem teardown_releases_nothing:
  "released (editor_run evs (new_Editor h now root res panel)) = [] \<and>
   disposables (editor_run evs (new_Editor h now root res panel)) = registrations (uri_fsPath h res) \<and>
   released (dispose (editor_run evs (new_Editor h now root res panel))) = registrations (uri_fsPath h res) \<and>
   released (objects (run [(h, Resolve res panel now), (h', Deliver 0 DidDispose)]
                        (new_EditorManager root)) ! 0) = [] \<and>
   disposables (objects (run [(h, Resolve res panel now), (h', Deliver 0 DidDispose)]
                           (new_EditorManager root)) ! 0) = registrations (uri_fsPath h res)"
proof -
  have new: "released (new_Editor h now root res panel) = [] \<and>
      disposables (new_Editor h now root res panel) = registrations (uri_fsPath h res)"
    by (simp add: new_Editor_def editor_defs register_def Let_def registrations_def)
  have world: "objects (run [(h, Resolve res panel now), (h', Deliver 0 DidDispose)]
        (new_EditorManager root)) ! 0 =
      editor_run [(h', DidDispose)] (new_Editor h now root res panel)"
    by (simp add: manager_defs Let_def)
  from new show ?thesis
    unfolding world
    by (simp add: run_released run_disposables dispose_def editor_onDidDispose_def)
qed

subsection \<open>The state of an editor\<close>

text \<open>
  C4. After any sequence of events delivered to an editor since its construction, the
  state is \<open>Disposed\<close> exactly when a disposal notification is among them, whatever
  was delivered after it; and when none is, the state is \<open>Active\<close> exactly when the
  last focus value the panel reported is true (the value it had at the construction
  when no notification reported one).
\<close>

theorem editor_state_after_notifications:
  "(editorState (editor_run evs (new_Editor h now root res panel)) = Disposed \<longleftrightarrow>
      DidDispose \<in> snd ` set evs) \<and>
   (DidDispose \<notin> snd ` set evs \<longrightarrow>
      (editorState (editor_run evs (new_Editor h now root res panel)) = Active \<longleftrightarrow>
         last_focus (active panel) (map snd evs)))"
proof -
  have "active (webviewEditor (new_Editor h now root res panel)) = active panel"
    by (simp add: new_Editor_def editor_defs register_def Let_def)
  with run_state [OF new_Editor_in_sync, of evs h now root res panel] show ?thesis
    by simp
qed

theorem editor_state_after_notifications_witness:
  "DidDispose \<notin> snd ` set [(host0, DidChangeViewState False), (host0, WatcherDidChange (file_uri ''/a/x.bpmn'') 7),
                              (host0, DidChangeViewState True)] \<and>
   last_focus (active (panel0 False))
     (map snd [(host0, DidChangeViewState False), (host0, WatcherDidChange (file_uri ''/a/x.bpmn'') 7),
               (host0, DidChangeViewState True)]) \<and>
   editorState (editor_run [(host0, DidChangeViewState False), (host0, WatcherDidChange (file_uri ''/a/x.bpmn'') 7),
                            (host0, DidChangeViewState True)]
                  (new_Editor host0 5 (file_uri ''/ext'') (file_uri ''/a/x.bpmn'') (panel0 False))) = Active \<and>
   editorState (editor_run [(host0, DidChangeViewState True), (host0, DidDispose), (host0, DidChangeViewState True)]
                  (new_Editor host0 5 (file_uri ''/ext'') (file_uri ''/a/x.bpmn'') (panel0 False))) = Disposed"
  using editor_state_after_notifications
          [of "[(host0, DidChangeViewState False), (host0, WatcherDidChange (file_uri ''/a/x.bpmn'') 7),
                (host0, DidChangeViewState True)]"
              host0 5 "file_uri ''/ext''" "file_uri ''/a/x.bpmn''" "panel0 False"]
        editor_state_after_notifications
          [of "[(host0, DidChangeViewState True), (host0, DidDispose), (host0, DidChangeViewState True)]"
              host0 5 "file_uri ''/ext''" "file_uri ''/a/x.bpmn''" "panel0 False"]
  by simp

text \<open>
  C5. Once the disposal notification has been delivered to an editor, whatever events
  follow, the state is \<open>Disposed\<close> and a call of \<^verbatim>\<open>render()\<close> or \<^verbatim>\<open>update()\<close> changes
  nothing of the editor but the history of calls: no value is assigned to
  \<^verbatim>\<open>webview.html\<close>, no render is left waiting to assign one, no message is posted, and
  the state stays \<open>Disposed\<close>.
\<close>

theorem render_update_after_disposal:
  "editorState (editor_run evs (editor_step h DidDispose ed)) = Disposed \<and>
   render now (editor_run evs (editor_step h DidDispose ed)) =
     (editor_run evs (editor_step h DidDispose ed))
       \<lparr>calls := calls (editor_run evs (editor_step h DidDispose ed)) @ [CallRender]\<rparr> \<and>
   update (editor_run evs (editor_step h DidDispose ed)) =
     (editor_run evs (editor_step h DidDispose ed))
       \<lparr>calls := calls (editor_run evs (editor_step h DidDispose ed)) @ [CallUpdate]\<rparr>"
proof -
  have "editorState (editor_step h DidDispose ed) = Disposed"
    by (simp add: editor_onDidDispose_def)
  then have "editorState (editor_run evs (editor_step h DidDispose ed)) = Disposed"
    by (rule run_Disposed)
  then show ?thesis
    by (simp add: render_def update_def Let_def)
qed

subsection \<open>The resource path\<close>

text \<open>
  C6. For a resource of the scheme \<^verbatim>\<open>git\<close> whose \<^verbatim>\<open>stat\<close> reports the size zero,
  \<^verbatim>\<open>getResourcePath\<close> resolves to the placeholder data URI, whatever the query string
  of the resource.
\<close>

theorem placeholder_for_empty_git_resource:
  assumes "scheme res = ''git''" and "fs_stat h res = Inr stat" and "stat_size stat = 0"
  shows "getResourcePath h panel res version = Inr emptyPngDataUri"
  using assms by (simp add: getResourcePath_def)

theorem placeholder_for_empty_git_resource_witness:
  "scheme (git_uri ''/empty.bpmn'' ''ref=HEAD'') = ''git'' \<and>
   fs_stat host0 (git_uri ''/empty.bpmn'' ''ref=HEAD'') = Inr \<lparr>stat_size = 0\<rparr> \<and>
   query (git_uri ''/empty.bpmn'' ''ref=HEAD'') = ''ref=HEAD'' \<and>
   getResourcePath host0 (panel0 True) (git_uri ''/empty.bpmn'' ''ref=HEAD'') ''17'' = Inr emptyPngDataUri \<and>
   query (git_uri ''/empty.bpmn'' []) = [] \<and>
   getResourcePath host0 (panel0 True) (git_uri ''/empty.bpmn'' []) ''17'' = Inr emptyPngDataUri"
  using placeholder_for_empty_git_resource
          [of "git_uri ''/empty.bpmn'' ''ref=HEAD''" host0 "\<lparr>stat_size = 0\<rparr>" "panel0 True" "''17''"]
        placeholder_for_empty_git_resource
          [of "git_uri ''/empty.bpmn'' []" host0 "\<lparr>stat_size = 0\<rparr>" "panel0 True" "''17''"]
  by (simp add: git_uri_def host0_def)

text \<open>
  C7. For a resource that gets past the placeholder test (its scheme is not \<^verbatim>\<open>git\<close>,
  or \<^verbatim>\<open>stat\<close> reports a size other than zero): when it has a query string,
  \<^verbatim>\<open>getResourcePath\<close> resolves to the webview URI of the resource as it is, and when it
  has none, to that URI with the query \<^verbatim>\<open>version=<version>\<close>.
\<close>

theorem query_string_left_unmodified:
  assumes "scheme res \<noteq> ''git'' \<or> (\<exists>stat. fs_stat h res = Inr stat \<and> stat_size stat \<noteq> 0)"
  shows "(query res \<noteq> [] \<longrightarrow>
            getResourcePath h panel res version =
              Inr (uri_toString_skipEncoding h (asWebviewUri panel res))) \<and>
         (query res = [] \<longrightarrow>
            getResourcePath h panel res version =
              Inr (uri_toString_skipEncoding h
                     ((asWebviewUri panel res)\<lparr>query := ''version='' @ version\<rparr>)))"
  using assms by (auto simp add: getResourcePath_def Let_def)

theorem query_string_left_unmodified_witness:
  "scheme \<lparr>scheme = ''file'', authority = [], path = ''/a/x.bpmn'', query = ''rev=3'', fragment = []\<rparr> \<noteq> ''git'' \<and>
   getResourcePath host0 (panel0 True)
       \<lparr>scheme = ''file'', authority = [], path = ''/a/x.bpmn'', query = ''rev=3'', fragment = []\<rparr> ''17'' =
     Inr ''vscode-resource://file/a/x.bpmn?rev=3'' \<and>
   getResourcePath host0 (panel0 True) (file_uri ''/a/x.bpmn'') ''17'' =
     Inr ''vscode-resource://file/a/x.bpmn?version=17'' \<and>
   fs_stat host0 (git_uri ''/a/x.bpmn'' ''ref=HEAD'') = Inr \<lparr>stat_size = 120\<rparr> \<and>
   getResourcePath host0 (panel0 True) (git_uri ''/a/x.bpmn'' ''ref=HEAD'') ''17'' =
     Inr ''vscode-resource://git/a/x.bpmn?ref=HEAD''"
  using query_string_left_unmodified
          [of "\<lparr>scheme = ''file'', authority = [], path = ''/a/x.bpmn'', query = ''rev=3'', fragment = []\<rparr>"
              host0 "panel0 True" "''17''"]
        query_string_left_unmodified [of "file_uri ''/a/x.bpmn''" host0 "panel0 True" "''17''"]
        query_string_left_unmodified [of "git_uri ''/a/x.bpmn'' ''ref=HEAD''" host0 "panel0 True" "''17''"]
  by (simp add: git_uri_def file_uri_def host0_def panel0_def print_uri_def)

subsection \<open>Rendering on a change of the file\<close>

text \<open>
  C8. A change event of the watcher whose URI prints as the resource of the editor
  calls \<^verbatim>\<open>render()\<close> exactly once; for an editor that is not disposed this leaves one
  more render waiting, and when that one goes on with its contents resolved, exactly one
  value, those contents, is assigned to \<^verbatim>\<open>webview.html\<close>. A change event for a URI
  that prints otherwise leaves the editor as it is.
\<close>

theorem change_event_renders_once:
  "(uri_toString h e \<noteq> uri_toString h (resource ed) \<longrightarrow>
      editor_step h (WatcherDidChange e now) ed = ed) \<and>
   (uri_toString h e = uri_toString h (resource ed) \<longrightarrow>
      calls (editor_step h (WatcherDidChange e now) ed) = calls ed @ [CallRender] \<and>
      (editorState ed \<noteq> Disposed \<longrightarrow>
         pendingRenders (editor_step h (WatcherDidChange e now) ed) =
           pendingRenders ed @ [Number_toString now] \<and>
         html_assigned (webviewEditor (editor_step h (WatcherDidChange e now) ed)) =
           html_assigned (webviewEditor ed) \<and>
         (\<forall>h' now' contents.
            getWebiewContents h' (Number_toString now) (Number_toString now') ed = Inr contents \<longrightarrow>
            html_assigned (webviewEditor
                (editor_step h' (RenderResumed (length (pendingRenders ed)) now')
                   (editor_step h (WatcherDidChange e now) ed))) =
              html_assigned (webviewEditor ed) @ [contents] \<and>
            pendingRenders
                (editor_step h' (RenderResumed (length (pendingRenders ed)) now')
                   (editor_step h (WatcherDidChange e now) ed)) =
              pendingRenders ed)))"
proof -
  have resume: "html_assigned (webviewEditor
          (render_resume h' (length (pendingRenders ed)) now' (render now ed))) =
        html_assigned (webviewEditor ed) @ [contents] \<and>
      pendingRenders (render_resume h' (length (pendingRenders ed)) now' (render now ed)) =
        pendingRenders ed"
    if live: "editorState ed \<noteq> Disposed"
      and c: "getWebiewContents h' (Number_toString now) (Number_toString now') ed = Inr contents"
    for h' now' contents
  proof -
    let ?ed1 = "ed\<lparr>calls := calls ed @ [CallRender], pendingRenders := pendingRenders ed\<rparr>"
    have "getWebiewContents h' (Number_toString now) (Number_toString now') ?ed1 = Inr contents"
      using c getWebiewContents_cong [of ?ed1 ed] by simp
    with live show ?thesis
      by (simp add: render_def render_resume_def Let_def)
  qed
  show ?thesis
    using resume by (simp add: watcher_onDidChange_def) (simp add: render_def Let_def)
qed

theorem change_event_renders_once_witness:
  "uri_toString host0 (file_uri ''/a/y.bpmn'') \<noteq> uri_toString host0 (resource editor0) \<and>
   editor_step host0 (WatcherDidChange (file_uri ''/a/y.bpmn'') 9) editor0 = editor0 \<and>
   uri_toString host0 (file_uri ''/a/x.bpmn'') = uri_toString host0 (resource editor0) \<and>
   editorState editor0 \<noteq> Disposed \<and>
   calls (editor_step host0 (WatcherDidChange (file_uri ''/a/x.bpmn'') 9) editor0) =
     [CallRender, CallUpdate, CallRender] \<and>
   pendingRenders (editor_step host0 (WatcherDidChange (file_uri ''/a/x.bpmn'') 9) editor0) =
     [Number_toString 5, Number_toString 9] \<and>
   html_assigned (webviewEditor
       (editor_step host0 (RenderResumed 1 10)
          (editor_step host0 (WatcherDidChange (file_uri ''/a/x.bpmn'') 9) editor0))) =
     [html_template ''vscode-resource:'' (Number_toString 10)
        (escapeAttribute (JSON_stringify_settings False
           (''vscode-resource://file/a/x.bpmn?version='' @ Number_toString 9)))]"
proof -
  have differ: "uri_toString host0 (file_uri ''/a/y.bpmn'') \<noteq> uri_toString host0 (resource editor0)"
    by (simp add: editor0_fields host0_def file_uri_def print_uri_def)
  have same: "uri_toString host0 (file_uri ''/a/x.bpmn'') = uri_toString host0 (resource editor0)"
    by (simp add: editor0_fields)
  have live: "editorState editor0 \<noteq> Disposed"
    by (simp add: editor0_fields)
  from change_event_renders_once [of host0 "file_uri ''/a/y.bpmn''" editor0 9] differ
  have 1: "editor_step host0 (WatcherDidChange (file_uri ''/a/y.bpmn'') 9) editor0 = editor0"
    by blast
  from change_event_renders_once [of host0 "file_uri ''/a/x.bpmn''" editor0 9] same live
  have 2: "calls (editor_step host0 (WatcherDidChange (file_uri ''/a/x.bpmn'') 9) editor0) =
        calls editor0 @ [CallRender]"
    and 3: "pendingRenders (editor_step host0 (WatcherDidChange (file_uri ''/a/x.bpmn'') 9) editor0) =
        pendingRenders editor0 @ [Number_toString 9]"
    and 4: "\<And>h' now' contents.
        getWebiewContents h' (Number_toString 9) (Number_toString now') editor0 = Inr contents \<Longrightarrow>
        html_assigned (webviewEditor
            (editor_step h' (RenderResumed (length (pendingRenders editor0)) now')
               (editor_step host0 (WatcherDidChange (file_uri ''/a/x.bpmn'') 9) editor0))) =
          html_assigned (webviewEditor editor0) @ [contents]"
    by blast+
  from 4 [OF editor0_contents]
  have 5: "html_assigned (webviewEditor
       (editor_step host0 (RenderResumed 1 10)
          (editor_step host0 (WatcherDidChange (file_uri ''/a/x.bpmn'') 9) editor0))) =
     [html_template ''vscode-resource:'' (Number_toString 10)
        (escapeAttribute (JSON_stringify_settings False
           (''vscode-resource://file/a/x.bpmn?version='' @ Number_toString 9)))]"
    by (simp add: editor0_fields)
  from 2 have c2: "calls (editor_step host0 (WatcherDidChange (file_uri ''/a/x.bpmn'') 9) editor0) =
     [CallRender, CallUpdate, CallRender]"
    by (simp add: editor0_fields)
  from 3 have c3: "pendingRenders (editor_step host0 (WatcherDidChange (file_uri ''/a/x.bpmn'') 9) editor0) =
     [Number_toString 5, Number_toString 9]"
    by (simp add: editor0_fields)
  show ?thesis
    by (intro conjI differ 1 same live c2 c3 5)
qed

subsection \<open>The version of a render\<close>

text \<open>
  C9, as the claim states it, fails. The clock counts milliseconds, and two calls of
  \<^verbatim>\<open>render()\<close> that read the same millisecond compute the same version: the editor
  constructed at the reading 5 whose watcher reports a change of its resource at the
  same reading has two renders waiting with the version \<^verbatim>\<open>5\<close>, and both assign contents
  with the resource URL \<^verbatim>\<open>...?version=5\<close>. And a resource of the scheme \<^verbatim>\<open>git\<close> with
  no query string whose size is zero gets the placeholder, with no version at all,
  whatever the clock reads.
\<close>

theorem render_same_millisecond_counterexample:
  "query (resource editor0) = [] \<and>
   calls (editor_step host0 (WatcherDidChange (file_uri ''/a/x.bpmn'') 5) editor0) =
     [CallRender, CallUpdate, CallRender] \<and>
   pendingRenders (editor_step host0 (WatcherDidChange (file_uri ''/a/x.bpmn'') 5) editor0) =
     [''5'', ''5''] \<and>
   html_assigned (webviewEditor
       (editor_run [(host0, WatcherDidChange (file_uri ''/a/x.bpmn'') 5),
                    (host0, RenderResumed 0 6), (host0, RenderResumed 0 7)] editor0)) =
     [html_template ''vscode-resource:'' (Number_toString 6)
        (escapeAttribute (JSON_stringify_settings False ''vscode-resource://file/a/x.bpmn?version=5'')),
      html_template ''vscode-resource:'' (Number_toString 7)
        (escapeAttribute (JSON_stringify_settings False ''vscode-resource://file/a/x.bpmn?version=5''))] \<and>
   query (git_uri ''/empty.bpmn'' []) = [] \<and>
   getResourcePath host0 (panel0 True) (git_uri ''/empty.bpmn'' []) (Number_toString 8) =
     Inr emptyPngDataUri \<and>
   getResourcePath host0 (panel0 True) (git_uri ''/empty.bpmn'' []) (Number_toString 9) =
     Inr emptyPngDataUri"
proof -
  have q: "query (resource editor0) = []"
    by (simp add: editor0_fields file_uri_def)
  have c: "calls (editor_step host0 (WatcherDidChange (file_uri ''/a/x.bpmn'') 5) editor0) =
      [CallRender, CallUpdate, CallRender]"
    by (simp add: editor0_fields watcher_onDidChange_def render_def Let_def)
  have p: "pendingRenders (editor_step host0 (WatcherDidChange (file_uri ''/a/x.bpmn'') 5) editor0) =
      [''5'', ''5'']"
    by (simp add: editor0_fields watcher_onDidChange_def render_def Let_def Number_toString_5)
  have h: "html_assigned (webviewEditor
       (editor_run [(host0, WatcherDidChange (file_uri ''/a/x.bpmn'') 5),
                    (host0, RenderResumed 0 6), (host0, RenderResumed 0 7)] editor0)) =
     [html_template ''vscode-resource:'' (Number_toString 6)
        (escapeAttribute (JSON_stringify_settings False ''vscode-resource://file/a/x.bpmn?version=5'')),
      html_template ''vscode-resource:'' (Number_toString 7)
        (escapeAttribute (JSON_stringify_settings False ''vscode-resource://file/a/x.bpmn?version=5''))]"
    by (simp add: editor0_fields watcher_onDidChange_def render_def render_resume_def
          getWebiewContents_def getResourcePath_def Let_def Number_toString_5)
       (simp add: file_uri_def host0_def panel0_def print_uri_def)
  have g0: "query (git_uri ''/empty.bpmn'' []) = []"
    by (simp add: git_uri_def)
  have g: "getResourcePath host0 (panel0 True) (git_uri ''/empty.bpmn'' []) version = Inr emptyPngDataUri"
    for version
    by (simp add: getResourcePath_def git_uri_def host0_def)
  show ?thesis
    by (intro conjI q c p h g0 g)
qed

text \<open>
  C9, amended. For an editor that is not disposed and a resource with no query string
  that gets past the placeholder test, a call of \<^verbatim>\<open>render()\<close> computes the version from
  its own reading of the clock, and when it goes on it assigns contents whose resource
  URL is the webview URI with the query \<^verbatim>\<open>version=<reading>\<close>. So for two calls, the
  versions in the two URLs differ exactly when the two readings differ, and so do the
  URLs themselves when the host prints URIs with different queries differently.
\<close>

theorem render_versions_follow_clock:
  assumes "editorState ed \<noteq> Disposed"
    and "query (resource ed) = []"
    and "scheme (resource ed) \<noteq> ''git'' \<or>
         (\<exists>stat. fs_stat h1 (resource ed) = Inr stat \<and> stat_size stat \<noteq> 0)"
    and "scheme (resource ed) \<noteq> ''git'' \<or>
         (\<exists>stat. fs_stat h2 (resource ed) = Inr stat \<and> stat_size stat \<noteq> 0)"
  shows "pendingRenders (render t2 (render t1 ed)) =
           pendingRenders ed @ [Number_toString t1, Number_toString t2] \<and>
         getResourcePath h1 (webviewEditor ed) (resource ed) (Number_toString t1) =
           Inr (uri_toString_skipEncoding h1
                  ((asWebviewUri (webviewEditor ed) (resource ed))
                     \<lparr>query := ''version='' @ Number_toString t1\<rparr>)) \<and>
         getResourcePath h2 (webviewEditor ed) (resource ed) (Number_toString t2) =
           Inr (uri_toString_skipEncoding h2
                  ((asWebviewUri (webviewEditor ed) (resource ed))
                     \<lparr>query := ''version='' @ Number_toString t2\<rparr>)) \<and>
         html_assigned (webviewEditor
             (render_resume h2 (length (pendingRenders ed)) n2
                (render_resume h1 (length (pendingRenders ed)) n1
                   (render t2 (render t1 ed))))) =
           html_assigned (webviewEditor ed) @
             [html_template (cspSource (webviewEditor ed)) (Number_toString n1)
                (escapeAttribute (JSON_stringify_settings (process_platform h1 = ''darwin'')
                   (uri_toString_skipEncoding h1
                      ((asWebviewUri (webviewEditor ed) (resource ed))
                         \<lparr>query := ''version='' @ Number_toString t1\<rparr>)))),
              html_template (cspSource (webviewEditor ed)) (Number_toString n2)
                (escapeAttribute (JSON_stringify_settings (process_platform h2 = ''darwin'')
                   (uri_toString_skipEncoding h2
                      ((asWebviewUri (webviewEditor ed) (resource ed))
                         \<lparr>query := ''version='' @ Number_toString t2\<rparr>))))] \<and>
         (''version='' @ Number_toString t1 = ''version='' @ Number_toString t2 \<longleftrightarrow> t1 = t2) \<and>
         ((\<forall>q q'. uri_toString_skipEncoding h1 ((asWebviewUri (webviewEditor ed) (resource ed))\<lparr>query := q\<rparr>) =
                   uri_toString_skipEncoding h1 ((asWebviewUri (webviewEditor ed) (resource ed))\<lparr>query := q'\<rparr>)
                   \<longrightarrow> q = q') \<longrightarrow>
          (getResourcePath h1 (webviewEditor ed) (resource ed) (Number_toString t1) =
           getResourcePath h1 (webviewEditor ed) (resource ed) (Number_toString t2) \<longleftrightarrow> t1 = t2))"
proof -
  have g: "getResourcePath h panel (resource ed) version =
      Inr (uri_toString_skipEncoding h
             ((asWebviewUri panel (resource ed))\<lparr>query := ''version='' @ version\<rparr>))"
    if "scheme (resource ed) \<noteq> ''git'' \<or>
         (\<exists>stat. fs_stat h (resource ed) = Inr stat \<and> stat_size stat \<noteq> 0)"
    for h panel version
    using that assms(2) by (auto simp add: getResourcePath_def Let_def)
  have p: "pendingRenders (render t2 (render t1 ed)) =
      pendingRenders ed @ [Number_toString t1, Number_toString t2]"
    using assms(1) by (simp add: render_def Let_def)
  have v: "''version='' @ Number_toString t1 = ''version='' @ Number_toString t2 \<longleftrightarrow> t1 = t2"
    using Number_toString_inj by auto
  have r: "html_assigned (webviewEditor
             (render_resume h2 (length (pendingRenders ed)) n2
                (render_resume h1 (length (pendingRenders ed)) n1
                   (render t2 (render t1 ed))))) =
           html_assigned (webviewEditor ed) @
             [html_template (cspSource (webviewEditor ed)) (Number_toString n1)
                (escapeAttribute (JSON_stringify_settings (process_platform h1 = ''darwin'')
                   (uri_toString_skipEncoding h1
                      ((asWebviewUri (webviewEditor ed) (resource ed))
                         \<lparr>query := ''version='' @ Number_toString t1\<rparr>)))),
              html_template (cspSource (webviewEditor ed)) (Number_toString n2)
                (escapeAttribute (JSON_stringify_settings (process_platform h2 = ''darwin'')
                   (uri_toString_skipEncoding h2
                      ((asWebviewUri (webviewEditor ed) (resource ed))
                         \<lparr>query := ''version='' @ Number_toString t2\<rparr>))))]"
    using assms(1)
    by (simp add: render_def render_resume_def getWebiewContents_def Let_def
          g [OF assms(3)] g [OF assms(4)] nth_append)
  have u: "getResourcePath h1 (webviewEditor ed) (resource ed) (Number_toString t1) =
           getResourcePath h1 (webviewEditor ed) (resource ed) (Number_toString t2) \<longleftrightarrow> t1 = t2"
    if "\<forall>q q'. uri_toString_skipEncoding h1 ((asWebviewUri (webviewEditor ed) (resource ed))\<lparr>query := q\<rparr>) =
                   uri_toString_skipEncoding h1 ((asWebviewUri (webviewEditor ed) (resource ed))\<lparr>query := q'\<rparr>)
                   \<longrightarrow> q = q'"
    using that v unfolding g [OF assms(3)] by blast
  from p g [OF assms(3)] g [OF assms(4)] r v u show ?thesis
    by blast
qed

theorem render_versions_follow_clock_witness:
  "editorState editor0 \<noteq> Disposed \<and>
   query (resource editor0) = [] \<and>
   scheme (resource editor0) \<noteq> ''git'' \<and>
   pendingRenders (render 9 (render 8 editor0)) =
     [Number_toString 5, Number_toString 8, Number_toString 9] \<and>
   getResourcePath host0 (webviewEditor editor0) (resource editor0) (Number_toString 8) =
     Inr (''vscode-resource://file/a/x.bpmn?version='' @ Number_toString 8) \<and>
   getResourcePath host0 (webviewEditor editor0) (resource editor0) (Number_toString 9) =
     Inr (''vscode-resource://file/a/x.bpmn?version='' @ Number_toString 9) \<and>
   html_assigned (webviewEditor
       (render_resume host0 1 11 (render_resume host0 1 10 (render 9 (render 8 editor0))))) =
     [html_template ''vscode-resource:'' (Number_toString 10)
        (escapeAttribute (JSON_stringify_settings False
           (''vscode-resource://file/a/x.bpmn?version='' @ Number_toString 8))),
      html_template ''vscode-resource:'' (Number_toString 11)
        (escapeAttribute (JSON_stringify_settings False
           (''vscode-resource://file/a/x.bpmn?version='' @ Number_toString 9)))] \<and>
   getResourcePath host0 (webviewEditor editor0) (resource editor0) (Number_toString 8) \<noteq>
   getResourcePath host0 (webviewEditor editor0) (resource editor0) (Number_toString 9)"
proof -
  have live: "editorState editor0 \<noteq> Disposed"
    by (simp add: editor0_fields)
  have noquery: "query (resource editor0) = []"
    by (simp add: editor0_fields file_uri_def)
  have nogit: "scheme (resource editor0) \<noteq> ''git''"
    by (simp add: editor0_fields file_uri_def)
  from nogit have past: "scheme (resource editor0) \<noteq> ''git'' \<or>
      (\<exists>stat. fs_stat host0 (resource editor0) = Inr stat \<and> stat_size stat \<noteq> 0)"
    by (rule disjI1)
  have separate: "\<forall>q q'.
      uri_toString_skipEncoding host0 ((asWebviewUri (webviewEditor editor0) (resource editor0))\<lparr>query := q\<rparr>) =
      uri_toString_skipEncoding host0 ((asWebviewUri (webviewEditor editor0) (resource editor0))\<lparr>query := q'\<rparr>)
      \<longrightarrow> q = q'"
    by (simp add: editor0_fields host0_def panel0_def print_uri_def file_uri_def)
  have clock: "(8::int) \<noteq> 9"
    by simp
  note inst = render_versions_follow_clock [OF live noquery past past, of 9 8 11 10]
  from inst have p: "pendingRenders (render 9 (render 8 editor0)) =
      pendingRenders editor0 @ [Number_toString 8, Number_toString 9]"
    by (rule conjunct1)
  from inst have g8: "getResourcePath host0 (webviewEditor editor0) (resource editor0) (Number_toString 8) =
      Inr (uri_toString_skipEncoding host0
             ((asWebviewUri (webviewEditor editor0) (resource editor0))
                \<lparr>query := ''version='' @ Number_toString 8\<rparr>))"
    by blast
  from inst have g9: "getResourcePath host0 (webviewEditor editor0) (resource editor0) (Number_toString 9) =
      Inr (uri_toString_skipEncoding host0
             ((asWebviewUri (webviewEditor editor0) (resource editor0))
                \<lparr>query := ''version='' @ Number_toString 9\<rparr>))"
    by blast
  from inst have r: "html_assigned (webviewEditor
       (render_resume host0 (length (pendingRenders editor0)) 11
          (render_resume host0 (length (pendingRenders editor0)) 10 (render 9 (render 8 editor0))))) =
     html_assigned (webviewEditor editor0) @
       [html_template (cspSource (webviewEditor editor0)) (Number_toString 10)
          (escapeAttribute (JSON_stringify_settings (process_platform host0 = ''darwin'')
             (uri_toString_skipEncoding host0
                ((asWebviewUri (webviewEditor editor0) (resource editor0))
                   \<lparr>query := ''version='' @ Number_toString 8\<rparr>)))),
        html_template (cspSource (webviewEditor editor0)) (Number_toString 11)
          (escapeAttribute (JSON_stringify_settings (process_platform host0 = ''darwin'')
             (uri_toString_skipEncoding host0
                ((asWebviewUri (webviewEditor editor0) (resource editor0))
                   \<lparr>query := ''version='' @ Number_toString 9\<rparr>))))]"
    by blast
  from inst separate clock
  have u: "getResourcePath host0 (webviewEditor editor0) (resource editor0) (Number_toString 8) \<noteq>
      getResourcePath host0 (webviewEditor editor0) (resource editor0) (Number_toString 9)"
    by blast
  from p have p': "pendingRenders (render 9 (render 8 editor0)) =
     [Number_toString 5, Number_toString 8, Number_toString 9]"
    by (simp add: editor0_fields)
  from g8 have g8': "getResourcePath host0 (webviewEditor editor0) (resource editor0) (Number_toString 8) =
     Inr (''vscode-resource://file/a/x.bpmn?version='' @ Number_toString 8)"
    by (simp add: editor0_fields host0_def panel0_def print_uri_def file_uri_def)
  from g9 have g9': "getResourcePath host0 (webviewEditor editor0) (resource editor0) (Number_toString 9) =
     Inr (''vscode-resource://file/a/x.bpmn?version='' @ Number_toString 9)"
    by (simp add: editor0_fields host0_def panel0_def print_uri_def file_uri_def)
  from r have r': "html_assigned (webviewEditor
       (render_resume host0 1 11 (render_resume host0 1 10 (render 9 (render 8 editor0))))) =
     [html_template ''vscode-resource:'' (Number_toString 10)
        (escapeAttribute (JSON_stringify_settings False
           (''vscode-resource://file/a/x.bpmn?version='' @ Number_toString 8))),
      html_template ''vscode-resource:'' (Number_toString 11)
        (escapeAttribute (JSON_stringify_settings False
           (''vscode-resource://file/a/x.bpmn?version='' @ Number_toString 9)))]"
    by (simp add: editor0_fields) (simp add: host0_def panel0_def print_uri_def file_uri_def)
  show ?thesis
    by (intro conjI live noquery nogit p' g8' g9' r' u)
qed

subsection \<open>Broadcasting the focus\<close>

text \<open>
  C10. Every call of \<^verbatim>\<open>setActiveEditor\<close> executes \<^verbatim>\<open>setContext\<close> for
  \<^verbatim>\<open>bpmnEditorFocus\<close> once more, with whether the value is an editor. So does every
  resolved editor, with \<open>True\<close>, and every view-state notification of a panel that
  reports itself active, also when its editor is the active one already and stays it.
\<close>

theorem setActiveEditor_broadcasts_every_time:
  "executed (setActiveEditor v w) = executed w @ [(''setContext'', ''bpmnEditorFocus'', v \<noteq> None)] \<and>
   executed (step h (Resolve document_uri panel now) w) =
     executed w @ [(''setContext'', ''bpmnEditorFocus'', True)] \<and>
   (editor < length (objects w) \<longrightarrow>
      executed (step h (Deliver editor (DidChangeViewState True)) w) =
        executed w @ [(''setContext'', ''bpmnEditorFocus'', True)]) \<and>
   (editor < length (objects w) \<and> activeEditor (manager w) = Some editor \<longrightarrow>
      activeEditor (manager (step h (Deliver editor (DidChangeViewState True)) w)) = Some editor \<and>
      executed (step h (Deliver editor (DidChangeViewState True)) w) =
        executed w @ [(''setContext'', ''bpmnEditorFocus'', True)])"
proof -
  have a: "active (webviewEditor (editor_onDidChangeViewState
      (ed\<lparr>webviewEditor := (webviewEditor ed)\<lparr>active := True\<rparr>\<rparr>)))" for ed
    by (simp add: editor_defs Let_def)
  show ?thesis
    by (simp add: manager_defs Let_def a)
qed

theorem setActiveEditor_broadcasts_every_time_witness:
  "0 < length (objects world1) \<and>
   activeEditor (manager world1) = Some 0 \<and>
   executed world1 = [(''setContext'', ''bpmnEditorFocus'', True)] \<and>
   activeEditor (manager (step host0 (Deliver 0 (DidChangeViewState True)) world1)) = Some 0 \<and>
   executed (step host0 (Deliver 0 (DidChangeViewState True)) world1) =
     [(''setContext'', ''bpmnEditorFocus'', True), (''setContext'', ''bpmnEditorFocus'', True)] \<and>
   executed (step host0 (Resolve (file_uri ''/b/y.bpmn'') (panel0 True) 6) world1) =
     [(''setContext'', ''bpmnEditorFocus'', True), (''setContext'', ''bpmnEditorFocus'', True)]"
proof -
  have len: "0 < length (objects world1)"
    by (simp add: world1_def manager_defs Let_def)
  have act: "activeEditor (manager world1) = Some 0"
    by (simp add: world1_def manager_defs Let_def)
  have ex: "executed world1 = [(''setContext'', ''bpmnEditorFocus'', True)]"
    by (simp add: world1_def manager_defs Let_def)
  note inst = setActiveEditor_broadcasts_every_time
    [of "Some 0" world1 host0 "file_uri ''/b/y.bpmn''" "panel0 True" 6 0]
  from inst len act
  have 1: "activeEditor (manager (step host0 (Deliver 0 (DidChangeViewState True)) world1)) = Some 0"
    by blast
  from inst len act
  have 2: "executed (step host0 (Deliver 0 (DidChangeViewState True)) world1) =
      executed world1 @ [(''setContext'', ''bpmnEditorFocus'', True)]"
    by blast
  from inst
  have 3: "executed (step host0 (Resolve (file_uri ''/b/y.bpmn'') (panel0 True) 6) world1) =
      executed world1 @ [(''setContext'', ''bpmnEditorFocus'', True)]"
    by blast
  from 2 have e2: "executed (step host0 (Deliver 0 (DidChangeViewState True)) world1) =
     [(''setContext'', ''bpmnEditorFocus'', True), (''setContext'', ''bpmnEditorFocus'', True)]"
    by (simp only: ex append.simps)
  from 3 have e3: "executed (step host0 (Resolve (file_uri ''/b/y.bpmn'') (panel0 True) 6) world1) =
     [(''setContext'', ''bpmnEditorFocus'', True), (''setContext'', ''bpmnEditorFocus'', True)]"
    by (simp only: ex append.simps)
  show ?thesis
    by (intro conjI len act ex 1 e2 e3)
qed

end
